theory Spec2Isabelle
  imports Main "HOL-Library.Word"
begin

unbundle bit_operations_syntax

section \<open>Data model\<close>

text \<open>
  The Python package \<^verbatim>\<open>asmqdm\<close> consists of the module \<^verbatim>\<open>_ffi\<close> (ctypes bindings to the
  shared library \<^verbatim>\<open>libasmqdm.so\<close>) and the module \<^verbatim>\<open>core\<close> (the class \<^verbatim>\<open>asmqdm\<close>).
  The shared library itself is native code outside the Python sources; every call into it
  is recorded in a log, and its return values are supplied by a parameter \<open>eng\<close>.

  A Python \<^verbatim>\<open>str\<close> is represented by the sequence of its UTF-8 bytes, so that
  \<^verbatim>\<open>s.encode('utf-8')\<close> keeps the characters and an empty \<^verbatim>\<open>str\<close> is an empty list.
  A \<^verbatim>\<open>bytes\<close> object carries an identity besides its contents: two objects with equal
  contents are still two buffers in memory.
\<close>

type_synonym str = string

datatype bytes_obj = Bytes (oid: nat) (content: string)

datatype exn = OSError | StopIteration

text \<open>
  The foreign functions declared in \<^verbatim>\<open>_setup_functions\<close>, with their arguments as they are
  transmitted: \<^verbatim>\<open>c_int64\<close> and \<^verbatim>\<open>c_uint64\<close> as 64-bit words, \<^verbatim>\<open>c_void_p\<close> as a 64-bit
  address, \<^verbatim>\<open>c_char_p\<close> as the buffer passed (\<open>None\<close> is the null pointer).
\<close>

datatype ffi_call =
    progress_bar_create "64 word" "bytes_obj option" "64 word" "64 word"
  | progress_bar_update "64 word" "64 word"
  | progress_bar_render "64 word"
  | progress_bar_close "64 word"
  | progress_bar_set_description "64 word" bytes_obj "64 word"
  | get_terminal_width
  | get_time_ns
  | progress_bar_create_async "64 word" "bytes_obj option" "64 word" "64 word"
  | progress_bar_update_async "64 word" "64 word"
  | progress_bar_close_async "64 word"

text \<open>
  The native library: given the calls made so far and the present call, the raw 64-bit
  return value (ignored for the functions declared with \<^verbatim>\<open>restype = None\<close>).
\<close>

type_synonym engine = "ffi_call list \<Rightarrow> ffi_call \<Rightarrow> 64 word"

text \<open>
  What lies outside one \<^verbatim>\<open>asmqdm\<close> object:
  \<^item> \<open>lib_present\<close>: whether \<^verbatim>\<open>_find_library\<close> locates the shared library and
    \<^verbatim>\<open>ctypes.CDLL\<close> loads it;
  \<^item> \<open>lib_loaded\<close>: the module global \<^verbatim>\<open>_lib\<close> is not \<^verbatim>\<open>None\<close>;
  \<^item> \<open>ffi_log\<close>: the calls made into the library, oldest first;
  \<^item> \<open>next_oid\<close>: the identity the next allocated \<^verbatim>\<open>bytes\<close> object receives;
  \<^item> \<open>stderr\<close>: the characters the Python code itself has written to \<^verbatim>\<open>sys.stderr\<close>;
  \<^item> \<open>released\<close>: the \<^verbatim>\<open>bytes\<close> objects that have lost their last reference, oldest first,
    each with the number of calls that had been made into the library at that moment.
\<close>

record world =
  lib_present :: bool
  lib_loaded :: bool
  ffi_log :: "ffi_call list"
  next_oid :: nat
  stderr :: string
  released :: "(nat \<times> bytes_obj) list"

text \<open>
  The iterables a progress bar wraps: a re-iterable collection that has \<^verbatim>\<open>__len__\<close>
  (list, tuple, range), or a one-shot generator without \<^verbatim>\<open>__len__\<close>, given by the
  elements it has still to produce.
\<close>

datatype 'a iterable = Collection "'a list" | Generator "'a list"

text \<open>
  The attributes of an \<^verbatim>\<open>asmqdm\<close> object. Private attributes \<^verbatim>\<open>_x\<close> are the fields
  \<open>priv_x\<close>; \<^verbatim>\<open>total\<close> is the field \<open>total_iters\<close>, and a method \<^verbatim>\<open>__m__\<close> is the function \<open>dunder_m\<close>. \<^verbatim>\<open>_state\<close> is the value ctypes returns
  for a \<^verbatim>\<open>c_void_p\<close>: \<open>None\<close> for the null pointer, the address otherwise.
\<close>

record 'a asmqdm =
  iterable :: "'a iterable option"
  desc :: "str option"
  leave :: bool
  disable :: bool
  ascii_only :: bool
  async_render :: bool
  total_iters :: int
  priv_state :: "64 word option"
  priv_closed :: bool
  priv_is_async :: bool
  priv_desc_bytes :: "bytes_obj option"
  priv_iterator :: "'a list option"
  n :: int

section \<open>Module \<^verbatim>\<open>_ffi\<close>\<close>

text \<open>\<^verbatim>\<open>_get_lib\<close>: load the library on first use; \<^verbatim>\<open>OSError\<close> when it cannot be found.\<close>

definition get_lib :: "world \<Rightarrow> (exn + unit) \<times> world" where
  "get_lib w =
     (if \<not> lib_loaded w then
        (if lib_present w then (Inr (), w\<lparr>lib_loaded := True\<rparr>) else (Inl OSError, w))
      else (Inr (), w))"

text \<open>A call through ctypes: the library answers, and the call is logged.\<close>

definition foreign :: "engine \<Rightarrow> ffi_call \<Rightarrow> world \<Rightarrow> 64 word \<times> world" where
  "foreign eng c w = (eng (ffi_log w) c, w\<lparr>ffi_log := ffi_log w @ [c]\<rparr>)"

text \<open>
  Argument and result conversions of ctypes: a Python integer passed as \<^verbatim>\<open>c_int64\<close> or
  \<^verbatim>\<open>c_uint64\<close> is reduced modulo \<open>2 ^ 64\<close>; a \<^verbatim>\<open>c_int64\<close> result is read as a signed
  integer; a \<^verbatim>\<open>c_void_p\<close> result is \<^verbatim>\<open>None\<close> when null.
\<close>

definition c_int64 :: "int \<Rightarrow> 64 word" where
  "c_int64 i = word_of_int i"

definition c_uint64 :: "int \<Rightarrow> 64 word" where
  "c_uint64 i = word_of_int i"

definition from_c_int64 :: "64 word \<Rightarrow> int" where
  "from_c_int64 r = sint r"

definition from_c_void_p :: "64 word \<Rightarrow> 64 word option" where
  "from_c_void_p r = (if r = 0 then None else Some r)"

definition FLAG_LEAVE :: int where "FLAG_LEAVE = 0x01"
definition FLAG_DISABLE :: int where "FLAG_DISABLE = 0x02"
definition FLAG_ASCII :: int where "FLAG_ASCII = 0x04"
definition FLAG_ASYNC :: int where "FLAG_ASYNC = 0x20"

text \<open>The flags computed by \<^verbatim>\<open>create\<close> (lines 149 to 155).\<close>

definition create_flags :: "bool \<Rightarrow> bool \<Rightarrow> bool \<Rightarrow> int" where
  "create_flags lv dis asc =
     (let flags = 0;
          flags = (if lv then flags OR FLAG_LEAVE else flags);
          flags = (if dis then flags OR FLAG_DISABLE else flags);
          flags = (if asc then flags OR FLAG_ASCII else flags)
      in flags)"

text \<open>The flags computed by \<^verbatim>\<open>create_async\<close> (lines 263 to 269).\<close>

definition create_async_flags :: "bool \<Rightarrow> bool \<Rightarrow> bool \<Rightarrow> int" where
  "create_async_flags lv dis asc =
     (let flags = FLAG_ASYNC;
          flags = (if lv then flags OR FLAG_LEAVE else flags);
          flags = (if dis then flags OR FLAG_DISABLE else flags);
          flags = (if asc then flags OR FLAG_ASCII else flags)
      in flags)"

text \<open>\<^verbatim>\<open>len(desc_bytes) if desc_bytes else 0\<close>: \<^verbatim>\<open>None\<close> and \<^verbatim>\<open>b""\<close> are both false.\<close>

definition desc_len :: "bytes_obj option \<Rightarrow> int" where
  "desc_len desc_bytes =
     (case desc_bytes of
        None \<Rightarrow> 0
      | Some b \<Rightarrow> if content b \<noteq> [] then int (length (content b)) else 0)"

definition ffi_create ::
  "engine \<Rightarrow> int \<Rightarrow> bytes_obj option \<Rightarrow> bool \<Rightarrow> bool \<Rightarrow> bool \<Rightarrow> world
     \<Rightarrow> (exn + 64 word option) \<times> world" where
  "ffi_create eng tot desc_bytes lv dis asc w =
     (case get_lib w of
        (Inl e, w1) \<Rightarrow> (Inl e, w1)
      | (Inr _, w1) \<Rightarrow>
          (let flags = create_flags lv dis asc;
               dlen = desc_len desc_bytes;
               (r, w2) = foreign eng
                  (progress_bar_create (c_int64 tot) desc_bytes (c_int64 dlen) (c_uint64 flags)) w1
           in (Inr (from_c_void_p r), w2)))"

definition ffi_update :: "engine \<Rightarrow> 64 word \<Rightarrow> int \<Rightarrow> world \<Rightarrow> (exn + int) \<times> world" where
  "ffi_update eng st k w =
     (case get_lib w of
        (Inl e, w1) \<Rightarrow> (Inl e, w1)
      | (Inr _, w1) \<Rightarrow>
          (let (r, w2) = foreign eng (progress_bar_update st (c_int64 k)) w1
           in (Inr (from_c_int64 r), w2)))"

definition ffi_render :: "engine \<Rightarrow> 64 word \<Rightarrow> world \<Rightarrow> (exn + unit) \<times> world" where
  "ffi_render eng st w =
     (case get_lib w of
        (Inl e, w1) \<Rightarrow> (Inl e, w1)
      | (Inr _, w1) \<Rightarrow>
          (let (r, w2) = foreign eng (progress_bar_render st) w1 in (Inr (), w2)))"

definition ffi_close :: "engine \<Rightarrow> 64 word \<Rightarrow> world \<Rightarrow> (exn + unit) \<times> world" where
  "ffi_close eng st w =
     (case get_lib w of
        (Inl e, w1) \<Rightarrow> (Inl e, w1)
      | (Inr _, w1) \<Rightarrow>
          (let (r, w2) = foreign eng (progress_bar_close st) w1 in (Inr (), w2)))"

definition ffi_set_description ::
  "engine \<Rightarrow> 64 word \<Rightarrow> bytes_obj \<Rightarrow> world \<Rightarrow> (exn + unit) \<times> world" where
  "ffi_set_description eng st desc_bytes w =
     (case get_lib w of
        (Inl e, w1) \<Rightarrow> (Inl e, w1)
      | (Inr _, w1) \<Rightarrow>
          (let (r, w2) = foreign eng
                  (progress_bar_set_description st desc_bytes
                     (c_int64 (int (length (content desc_bytes))))) w1
           in (Inr (), w2)))"

definition terminal_width :: "engine \<Rightarrow> world \<Rightarrow> (exn + int) \<times> world" where
  "terminal_width eng w =
     (case get_lib w of
        (Inl e, w1) \<Rightarrow> (Inl e, w1)
      | (Inr _, w1) \<Rightarrow>
          (let (r, w2) = foreign eng get_terminal_width w1 in (Inr (from_c_int64 r), w2)))"

definition time_ns :: "engine \<Rightarrow> world \<Rightarrow> (exn + int) \<times> world" where
  "time_ns eng w =
     (case get_lib w of
        (Inl e, w1) \<Rightarrow> (Inl e, w1)
      | (Inr _, w1) \<Rightarrow>
          (let (r, w2) = foreign eng get_time_ns w1 in (Inr (from_c_int64 r), w2)))"

definition ffi_create_async ::
  "engine \<Rightarrow> int \<Rightarrow> bytes_obj option \<Rightarrow> bool \<Rightarrow> bool \<Rightarrow> bool \<Rightarrow> world
     \<Rightarrow> (exn + 64 word option) \<times> world" where
  "ffi_create_async eng tot desc_bytes lv dis asc w =
     (case get_lib w of
        (Inl e, w1) \<Rightarrow> (Inl e, w1)
      | (Inr _, w1) \<Rightarrow>
          (let flags = create_async_flags lv dis asc;
               dlen = desc_len desc_bytes;
               (r, w2) = foreign eng
                  (progress_bar_create_async (c_int64 tot) desc_bytes (c_int64 dlen)
                     (c_uint64 flags)) w1
           in (Inr (from_c_void_p r), w2)))"

definition ffi_update_async :: "engine \<Rightarrow> 64 word \<Rightarrow> int \<Rightarrow> world \<Rightarrow> (exn + int) \<times> world" where
  "ffi_update_async eng st k w =
     (case get_lib w of
        (Inl e, w1) \<Rightarrow> (Inl e, w1)
      | (Inr _, w1) \<Rightarrow>
          (let (r, w2) = foreign eng (progress_bar_update_async st (c_int64 k)) w1
           in (Inr (from_c_int64 r), w2)))"

definition ffi_close_async :: "engine \<Rightarrow> 64 word \<Rightarrow> world \<Rightarrow> (exn + unit) \<times> world" where
  "ffi_close_async eng st w =
     (case get_lib w of
        (Inl e, w1) \<Rightarrow> (Inl e, w1)
      | (Inr _, w1) \<Rightarrow>
          (let (r, w2) = foreign eng (progress_bar_close_async st) w1 in (Inr (), w2)))"

section \<open>Module \<^verbatim>\<open>core\<close>: the class \<^verbatim>\<open>asmqdm\<close>\<close>

text \<open>
  \<^verbatim>\<open>s.encode('utf-8')\<close> allocates a new \<^verbatim>\<open>bytes\<close> object; the literal \<^verbatim>\<open>b""\<close> is one
  constant object.
\<close>

definition encode :: "str \<Rightarrow> world \<Rightarrow> bytes_obj \<times> world" where
  "encode s w = (Bytes (next_oid w) s, w\<lparr>next_oid := Suc (next_oid w)\<rparr>)"

definition empty_bytes :: bytes_obj where
  "empty_bytes = Bytes 0 []"

text \<open>
  The method calls a client can make on an object. \<^verbatim>\<open>__next__\<close> itself calls
  \<^verbatim>\<open>update\<close> and \<^verbatim>\<open>close\<close>; it reports the calls it made with the same names.
\<close>

datatype call =
    Iter | Next | Enter | Exit | Len
  | Update int | Close | Refresh
  | Set_description "str option" | Set_postfix
  | Write str str | Format_dict

text \<open>
  \<^verbatim>\<open>__init__(iterable, desc, total, leave, disable, ascii, async_render)\<close>; the parameters
  \<^verbatim>\<open>file\<close>, \<^verbatim>\<open>ncols\<close> and \<^verbatim>\<open>unit\<close> are not used by the source. An exception of
  \<^verbatim>\<open>_ffi.create\<close> leaves no object behind.
\<close>

definition dunder_init ::
  "engine \<Rightarrow> 'a iterable option \<Rightarrow> str option \<Rightarrow> int option \<Rightarrow> bool \<Rightarrow> bool \<Rightarrow> bool \<Rightarrow> bool
     \<Rightarrow> world \<Rightarrow> (exn + 'a asmqdm) \<times> world" where
  "dunder_init eng itb d tot lv dis asc asy w =
     (let self = \<lparr>iterable = itb, desc = d, leave = lv, disable = dis, ascii_only = asc,
                   async_render = asy,
                   total_iters = (case tot of
                               Some t \<Rightarrow> t
                             | None \<Rightarrow> (case itb of
                                          Some (Collection xs) \<Rightarrow> int (length xs)
                                        | _ \<Rightarrow> 0)),
                   priv_state = None, priv_closed = False, priv_is_async = False,
                   priv_desc_bytes = None, priv_iterator = None, n = 0\<rparr>
      in if \<not> disable self then
           (let (db, w1) = (case desc self of
                              None \<Rightarrow> (None, w)
                            | Some t \<Rightarrow> if t \<noteq> [] then (let (b, w1) = encode t w in (Some b, w1))
                                       else (None, w));
                self = self\<lparr>priv_desc_bytes := db\<rparr>
            in if asy then
                 (case ffi_create_async eng (total_iters self) (priv_desc_bytes self) (leave self)
                         (disable self) (ascii_only self) w1 of
                    (Inl e, w2) \<Rightarrow> (Inl e, w2)
                  | (Inr h, w2) \<Rightarrow>
                      (Inr (self\<lparr>priv_state := h, priv_is_async := True,
                                 priv_iterator := None, n := 0\<rparr>), w2))
               else
                 (case ffi_create eng (total_iters self) (priv_desc_bytes self) (leave self)
                         (disable self) (ascii_only self) w1 of
                    (Inl e, w2) \<Rightarrow> (Inl e, w2)
                  | (Inr h, w2) \<Rightarrow>
                      (Inr (self\<lparr>priv_state := h, priv_iterator := None, n := 0\<rparr>), w2)))
         else (Inr (self\<lparr>priv_iterator := None, n := 0\<rparr>), w))"

text \<open>\<^verbatim>\<open>update(n)\<close>.\<close>

definition update :: "engine \<Rightarrow> int \<Rightarrow> 'a asmqdm \<Rightarrow> world \<Rightarrow> (exn + unit) \<times> 'a asmqdm \<times> world" where
  "update eng k self w =
     (if priv_state self \<noteq> None \<and> \<not> priv_closed self then
        (if priv_is_async self then
           (case ffi_update_async eng (the (priv_state self)) k w of
              (Inl e, w1) \<Rightarrow> (Inl e, self, w1)
            | (Inr r, w1) \<Rightarrow> (Inr (), self\<lparr>n := r\<rparr>, w1))
         else
           (case ffi_update eng (the (priv_state self)) k w of
              (Inl e, w1) \<Rightarrow> (Inl e, self, w1)
            | (Inr r, w1) \<Rightarrow> (Inr (), self\<lparr>n := r\<rparr>, w1)))
      else (Inr (), self\<lparr>n := n self + k\<rparr>, w))"

text \<open>\<^verbatim>\<open>close()\<close>.\<close>

definition close :: "engine \<Rightarrow> 'a asmqdm \<Rightarrow> world \<Rightarrow> (exn + unit) \<times> 'a asmqdm \<times> world" where
  "close eng self w =
     (if priv_state self \<noteq> None \<and> \<not> priv_closed self then
        (case (if priv_is_async self then ffi_close_async eng (the (priv_state self)) w
               else ffi_close eng (the (priv_state self)) w) of
           (Inl e, w1) \<Rightarrow> (Inl e, self, w1)
         | (Inr _, w1) \<Rightarrow> (Inr (), self\<lparr>priv_state := None, priv_closed := True\<rparr>, w1))
      else (Inr (), self, w))"

text \<open>\<^verbatim>\<open>refresh()\<close>.\<close>

definition refresh :: "engine \<Rightarrow> 'a asmqdm \<Rightarrow> world \<Rightarrow> (exn + unit) \<times> 'a asmqdm \<times> world" where
  "refresh eng self w =
     (if priv_state self \<noteq> None \<and> \<not> priv_closed self then
        (case ffi_render eng (the (priv_state self)) w of
           (Inl e, w1) \<Rightarrow> (Inl e, self, w1)
         | (Inr _, w1) \<Rightarrow> (Inr (), self, w1))
      else (Inr (), self, w))"

text \<open>
  An assignment to \<^verbatim>\<open>self._desc_bytes\<close> gives up the reference to the object the attribute
  held before. The objects made by \<^verbatim>\<open>encode\<close> in the methods of the class are referenced
  by this attribute only, so such an object loses its last reference there; the constant
  \<^verbatim>\<open>b""\<close> is referenced by the code itself and never does.
\<close>

definition drop_reference :: "bytes_obj option \<Rightarrow> world \<Rightarrow> world" where
  "drop_reference old w =
     (case old of
        None \<Rightarrow> w
      | Some b \<Rightarrow> if b = empty_bytes then w
                 else w\<lparr>released := released w @ [(length (ffi_log w), b)]\<rparr>)"

text \<open>
  \<^verbatim>\<open>set_description(desc)\<close>. Line 228 of the source,
  \<^verbatim>\<open>self._desc_bytes = desc.encode('utf-8') if desc else b""\<close>, is the function
  \<open>set_description_rebind\<close>: the right-hand side is evaluated, then the attribute is
  bound to it and the reference to its former value is given up. Line 229, the call
  into the library, follows it.
\<close>

definition set_description_rebind :: "str option \<Rightarrow> 'a asmqdm \<Rightarrow> world \<Rightarrow> 'a asmqdm \<times> world" where
  "set_description_rebind d self w =
     (let (b, w1) = (case d of
                       None \<Rightarrow> (empty_bytes, w)
                     | Some t \<Rightarrow> if t \<noteq> [] then encode t w else (empty_bytes, w));
          w2 = drop_reference (priv_desc_bytes self) w1
      in (self\<lparr>priv_desc_bytes := Some b\<rparr>, w2))"

definition set_description ::
  "engine \<Rightarrow> str option \<Rightarrow> 'a asmqdm \<Rightarrow> world \<Rightarrow> (exn + unit) \<times> 'a asmqdm \<times> world" where
  "set_description eng d self w =
     (let self = self\<lparr>desc := d\<rparr>
      in if priv_state self \<noteq> None \<and> \<not> priv_closed self then
           (let (self, w1) = set_description_rebind d self w
            in case ffi_set_description eng (the (priv_state self))
                      (the (priv_desc_bytes self)) w1 of
                 (Inl e, w2) \<Rightarrow> (Inl e, self, w2)
               | (Inr _, w2) \<Rightarrow> (Inr (), self, w2))
         else (Inr (), self, w))"

text \<open>\<^verbatim>\<open>set_postfix\<close> is a stub; \<^verbatim>\<open>write\<close> (with the default file) prints to \<^verbatim>\<open>sys.stderr\<close>.\<close>

definition set_postfix :: "'a asmqdm \<Rightarrow> 'a asmqdm" where
  "set_postfix self = self"

definition write_msg :: "str \<Rightarrow> str \<Rightarrow> world \<Rightarrow> world" where
  "write_msg s end_str w =
     w\<lparr>stderr := stderr w @ [CHR 0x0D, CHR 0x1B, CHR ''['', CHR ''K''] @ s @ end_str\<rparr>"

definition format_dict :: "'a asmqdm \<Rightarrow> int \<times> int \<times> str option" where
  "format_dict self = (n self, total_iters self, desc self)"

text \<open>\<^verbatim>\<open>__len__\<close>, \<^verbatim>\<open>__enter__\<close>, \<^verbatim>\<open>__exit__\<close>.\<close>

definition dunder_len :: "'a asmqdm \<Rightarrow> int" where
  "dunder_len self = total_iters self"

definition dunder_enter :: "'a asmqdm \<Rightarrow> 'a asmqdm" where
  "dunder_enter self = self"

definition dunder_exit :: "engine \<Rightarrow> 'a asmqdm \<Rightarrow> world \<Rightarrow> (exn + bool) \<times> 'a asmqdm \<times> world" where
  "dunder_exit eng self w =
     (case close eng self w of
        (Inl e, s1, w1) \<Rightarrow> (Inl e, s1, w1)
      | (Inr _, s1, w1) \<Rightarrow> (Inr False, s1, w1))"

text \<open>
  \<^verbatim>\<open>__iter__\<close>: \<^verbatim>\<open>iter(self.iterable)\<close> is a new iterator over a collection, and the
  generator itself for a generator.
\<close>

fun items :: "'a iterable \<Rightarrow> 'a list" where
  "items (Collection xs) = xs"
| "items (Generator xs) = xs"

definition dunder_iter :: "'a asmqdm \<Rightarrow> 'a asmqdm" where
  "dunder_iter self =
     (case iterable self of
        None \<Rightarrow> self
      | Some it \<Rightarrow> self\<lparr>priv_iterator := Some (items it)\<rparr>)"

text \<open>
  \<^verbatim>\<open>next(self._iterator)\<close> on a non-empty iterator moves it past its first element; an
  iterator that is the wrapped generator moves the generator with it.
\<close>

definition advance :: "'a list \<Rightarrow> 'a asmqdm \<Rightarrow> 'a asmqdm" where
  "advance xs self =
     self\<lparr>priv_iterator := Some xs,
          iterable := (case iterable self of
                         Some (Generator _) \<Rightarrow> Some (Generator xs)
                       | other \<Rightarrow> other)\<rparr>"

text \<open>
  \<^verbatim>\<open>__next__\<close>: the result, the method calls made on the way, the object and the world.
  The \<^verbatim>\<open>except StopIteration\<close> clause covers both \<^verbatim>\<open>next(self._iterator)\<close> and
  \<^verbatim>\<open>self.update(1)\<close>.
\<close>

definition close_and_reraise ::
  "engine \<Rightarrow> call list \<Rightarrow> 'a asmqdm \<Rightarrow> world \<Rightarrow> (exn + 'a) \<times> call list \<times> 'a asmqdm \<times> world" where
  "close_and_reraise eng made self w =
     (case close eng self w of
        (Inl e, s1, w1) \<Rightarrow> (Inl e, made @ [Close], s1, w1)
      | (Inr _, s1, w1) \<Rightarrow> (Inl StopIteration, made @ [Close], s1, w1))"

definition dunder_next ::
  "engine \<Rightarrow> 'a asmqdm \<Rightarrow> world \<Rightarrow> (exn + 'a) \<times> call list \<times> 'a asmqdm \<times> world" where
  "dunder_next eng self w =
     (case priv_iterator self of
        None \<Rightarrow> (Inl StopIteration, [], self, w)
      | Some [] \<Rightarrow> close_and_reraise eng [] self w
      | Some (item # rest) \<Rightarrow>
          (case update eng 1 (advance rest self) w of
             (Inl e, s1, w1) \<Rightarrow>
               (if e = StopIteration then close_and_reraise eng [Update 1] s1 w1
                else (Inl e, [Update 1], s1, w1))
           | (Inr _, s1, w1) \<Rightarrow> (Inr item, [Update 1], s1, w1)))"

section \<open>Clients\<close>

text \<open>One method call by a client that goes on whatever the call returns or raises.\<close>

fun step :: "engine \<Rightarrow> call \<Rightarrow> 'a asmqdm \<times> world \<Rightarrow> 'a asmqdm \<times> world" where
  "step eng Iter (self, w) = (dunder_iter self, w)"
| "step eng Next (self, w) = snd (snd (dunder_next eng self w))"
| "step eng Enter (self, w) = (dunder_enter self, w)"
| "step eng Exit (self, w) = snd (dunder_exit eng self w)"
| "step eng Len (self, w) = (self, w)"
| "step eng (Update k) (self, w) = snd (update eng k self w)"
| "step eng Close (self, w) = snd (close eng self w)"
| "step eng Refresh (self, w) = snd (refresh eng self w)"
| "step eng (Set_description d) (self, w) = snd (set_description eng d self w)"
| "step eng Set_postfix (self, w) = (set_postfix self, w)"
| "step eng (Write s e) (self, w) = (self, write_msg s e w)"
| "step eng Format_dict (self, w) = (self, w)"

fun run :: "engine \<Rightarrow> call list \<Rightarrow> 'a asmqdm \<times> world \<Rightarrow> 'a asmqdm \<times> world" where
  "run eng [] sw = sw"
| "run eng (c # cs) sw = run eng cs (step eng c sw)"

text \<open>An object from its construction through a sequence of method calls.\<close>

definition lifetime ::
  "engine \<Rightarrow> 'a iterable option \<Rightarrow> str option \<Rightarrow> int option \<Rightarrow> bool \<Rightarrow> bool \<Rightarrow> bool \<Rightarrow> bool
     \<Rightarrow> call list \<Rightarrow> world \<Rightarrow> (exn + 'a asmqdm) \<times> world" where
  "lifetime eng itb d tot lv dis asc asy cs w =
     (case dunder_init eng itb d tot lv dis asc asy w of
        (Inl e, w1) \<Rightarrow> (Inl e, w1)
      | (Inr s0, w1) \<Rightarrow> (case run eng cs (s0, w1) of (s, w2) \<Rightarrow> (Inr s, w2)))"

text \<open>\<^verbatim>\<open>for k in ks: pbar.update(k)\<close>: an exception ends the loop.\<close>

fun updates ::
  "engine \<Rightarrow> int list \<Rightarrow> 'a asmqdm \<Rightarrow> world \<Rightarrow> (exn + unit) \<times> 'a asmqdm \<times> world" where
  "updates eng [] self w = (Inr (), self, w)"
| "updates eng (k # ks) self w =
     (case update eng k self w of
        (Inl e, s1, w1) \<Rightarrow> (Inl e, s1, w1)
      | (Inr _, s1, w1) \<Rightarrow> updates eng ks s1 w1)"




section \<open>Notions used by the properties\<close>



text \<open>The guard under which the methods call into the library.\<close>

definition live :: "'a asmqdm \<Rightarrow> bool" where
  "live self \<longleftrightarrow> priv_state self \<noteq> None \<and> \<not> priv_closed self"

text \<open>
  The handle is held only by an object that is neither disabled nor closed, and only
  after the library has been loaded.
\<close>

definition handle_guarded :: "'a asmqdm \<Rightarrow> world \<Rightarrow> bool" where
  "handle_guarded self w \<longleftrightarrow>
     priv_state self = None \<or> (\<not> disable self \<and> \<not> priv_closed self \<and> lib_loaded w)"

text \<open>The calls into the library made between an earlier and a later world.\<close>

definition new_calls :: "world \<Rightarrow> world \<Rightarrow> ffi_call list" where
  "new_calls w0 w = drop (length (ffi_log w0)) (ffi_log w)"

text \<open>A call that transmits a flags word with the bit \<^verbatim>\<open>FLAG_DISABLE\<close> set.\<close>

definition carries_disable :: "ffi_call \<Rightarrow> bool" where
  "carries_disable c =
     (case c of
        progress_bar_create _ _ _ f \<Rightarrow> f AND 0x02 \<noteq> 0
      | progress_bar_create_async _ _ _ f \<Rightarrow> f AND 0x02 \<noteq> 0
      | _ \<Rightarrow> False)"

text \<open>
  The description buffer the library was given last: the \<^verbatim>\<open>_ffi\<close> docstrings require
  the caller to keep a reference to it, so the library holds its address.
\<close>

definition desc_passed :: "ffi_call \<Rightarrow> bytes_obj option option" where
  "desc_passed c =
     (case c of
        progress_bar_create _ d _ _ \<Rightarrow> Some d
      | progress_bar_create_async _ d _ _ \<Rightarrow> Some d
      | progress_bar_set_description _ b _ \<Rightarrow> Some (Some b)
      | _ \<Rightarrow> None)"

definition last_desc_passed :: "ffi_call list \<Rightarrow> bytes_obj option" where
  "last_desc_passed log =
     foldl (\<lambda>held c. case desc_passed c of Some d \<Rightarrow> d | None \<Rightarrow> held) None log"

text \<open>
  In a process whose library calls all concern one progress bar: some \<^verbatim>\<open>bytes\<close> object
  lost its last reference at a moment when it was the description buffer the library
  had been given last, so that the library held the address of a buffer that Python
  was free to reclaim.
\<close>

definition held_when_released :: "world \<Rightarrow> bool" where
  "held_when_released w \<longleftrightarrow>
     list_ex (\<lambda>(k, b). last_desc_passed (take k (ffi_log w)) = Some b) (released w)"



text \<open>
  The library calls by which an object that holds a handle passes on \<^verbatim>\<open>update(1)\<close> and
  \<^verbatim>\<open>close()\<close>.
\<close>

definition update_call :: "'a asmqdm \<Rightarrow> ffi_call" where
  "update_call self =
     (if priv_is_async self then progress_bar_update_async (the (priv_state self)) 1
      else progress_bar_update (the (priv_state self)) 1)"

definition close_call :: "'a asmqdm \<Rightarrow> ffi_call" where
  "close_call self =
     (if priv_is_async self then progress_bar_close_async (the (priv_state self))
      else progress_bar_close (the (priv_state self)))"

text \<open>
  Modelled from the spec: the native library \<^verbatim>\<open>libasmqdm.so\<close> is not among the Python
  sources. This stand-in follows sections 4.1 and 6 of the specification in what it
  returns: \<^verbatim>\<open>create\<close> and \<^verbatim>\<open>create_async\<close> return a new non-null handle, \<^verbatim>\<open>update\<close> and
  \<^verbatim>\<open>update_async\<close> return the count after the increment. It serves to run the wrapper
  on concrete inputs; the general theorems hold for every library.
\<close>

definition increment_of :: "64 word \<Rightarrow> ffi_call \<Rightarrow> 64 word" where
  "increment_of h c =
     (case c of
        progress_bar_update h' k \<Rightarrow> if h' = h then k else 0
      | progress_bar_update_async h' k \<Rightarrow> if h' = h then k else 0
      | _ \<Rightarrow> 0)"

definition reference_engine :: engine where
  "reference_engine log c =
     (case c of
        progress_bar_create _ _ _ _ \<Rightarrow> word_of_nat (Suc (length log))
      | progress_bar_create_async _ _ _ _ \<Rightarrow> word_of_nat (Suc (length log))
      | progress_bar_update h k \<Rightarrow> sum_list (map (increment_of h) log) + k
      | progress_bar_update_async h k \<Rightarrow> sum_list (map (increment_of h) log) + k
      | get_terminal_width \<Rightarrow> 80
      | _ \<Rightarrow> 0)"

text \<open>A process that has not loaded the library yet and can load it.\<close>

definition fresh_world :: world where
  "fresh_world =
     \<lparr>lib_present = True, lib_loaded = False, ffi_log = [], next_oid = 1, stderr = [],
         released = []\<rparr>"

section \<open>Properties\<close>

lemmas ffi_defs = ffi_create_def ffi_create_async_def ffi_update_def ffi_update_async_def
  ffi_render_def ffi_close_def ffi_close_async_def ffi_set_description_def get_lib_def
  foreign_def

text \<open>
  Claim C7. The flags word passed to the library is exactly the bitwise OR of
  \<^verbatim>\<open>LEAVE = 0x01\<close> when \<^verbatim>\<open>leave\<close> is set, \<^verbatim>\<open>DISABLE = 0x02\<close> when \<^verbatim>\<open>disable\<close> is set and
  \<^verbatim>\<open>ASCII = 0x04\<close> when \<^verbatim>\<open>ascii_only\<close> is set; \<^verbatim>\<open>create_async\<close> always adds
  \<^verbatim>\<open>ASYNC = 0x20\<close> and \<^verbatim>\<open>create\<close> never does; the bits \<^verbatim>\<open>0x08\<close> and \<^verbatim>\<open>0x10\<close> are never
  set. The first six conjuncts are the flags as \<^verbatim>\<open>create\<close> and \<^verbatim>\<open>create_async\<close> compute
  them. The last two are the whole functions: whenever the library is loaded or can
  be loaded, exactly one call reaches it, and it carries this word, in which the bits
  \<^verbatim>\<open>0x08\<close> and \<^verbatim>\<open>0x10\<close> are clear; otherwise \<^verbatim>\<open>OSError\<close> is raised and no call is made.
\<close>

theorem flags_word_exact:
  "create_flags lv dis asc =
     (if lv then 0x01 else 0) OR (if dis then 0x02 else 0) OR (if asc then 0x04 else 0)
   \<and> create_async_flags lv dis asc =
     0x20 OR (if lv then 0x01 else 0) OR (if dis then 0x02 else 0) OR (if asc then 0x04 else 0)
   \<and> create_flags lv dis asc AND 0x20 = 0
   \<and> create_async_flags lv dis asc AND 0x20 = 0x20
   \<and> create_flags lv dis asc AND 0x18 = 0
   \<and> create_async_flags lv dis asc AND 0x18 = 0
   \<and> (let flags = (if lv then 0x01 else 0) OR (if dis then 0x02 else 0)
                      OR (if asc then 0x04 else 0);
           c = progress_bar_create (c_int64 tot) db (c_int64 (desc_len db)) flags
       in flags AND 0x38 = 0
          \<and> ffi_create eng tot db lv dis asc w =
              (if lib_loaded w \<or> lib_present w
               then (Inr (from_c_void_p (eng (ffi_log w) c)),
                     w\<lparr>lib_loaded := True, ffi_log := ffi_log w @ [c]\<rparr>)
               else (Inl OSError, w)))
   \<and> (let flags = 0x20 OR (if lv then 0x01 else 0) OR (if dis then 0x02 else 0)
                      OR (if asc then 0x04 else 0);
           c = progress_bar_create_async (c_int64 tot) db (c_int64 (desc_len db)) flags
       in flags AND 0x38 = 0x20
          \<and> ffi_create_async eng tot db lv dis asc w =
              (if lib_loaded w \<or> lib_present w
               then (Inr (from_c_void_p (eng (ffi_log w) c)),
                     w\<lparr>lib_loaded := True, ffi_log := ffi_log w @ [c]\<rparr>)
               else (Inl OSError, w)))"
proof -
  have l: "lib_loaded w \<Longrightarrow> w\<lparr>ffi_log := x\<rparr> = w\<lparr>lib_loaded := True, ffi_log := x\<rparr>" for x
    by (cases w) simp
  show ?thesis
    by (cases lv; cases dis; cases asc)
       (simp_all add: create_flags_def create_async_flags_def FLAG_LEAVE_def FLAG_DISABLE_def
          FLAG_ASCII_def FLAG_ASYNC_def ffi_defs c_uint64_def Let_def l)
qed

theorem flags_word_exact_witness:
  "ffi_create reference_engine 10 None True False True fresh_world
     = (Inr (Some 1),
        \<lparr>lib_present = True, lib_loaded = True,
          ffi_log = [progress_bar_create 10 None 0 0x05], next_oid = 1, stderr = [],
          released = []\<rparr>)
   \<and> ffi_create_async reference_engine 10 None True False True fresh_world
     = (Inr (Some 1),
        \<lparr>lib_present = True, lib_loaded = True,
          ffi_log = [progress_bar_create_async 10 None 0 0x25], next_oid = 1, stderr = [],
          released = []\<rparr>)
   \<and> ffi_create_async reference_engine 10 None False False False
        (fresh_world\<lparr>lib_present := False\<rparr>)
     = (Inl OSError, fresh_world\<lparr>lib_present := False\<rparr>)"
  using flags_word_exact [of True False True 10 None reference_engine fresh_world]
        flags_word_exact [of False False False 10 None reference_engine
                            "fresh_world\<lparr>lib_present := False\<rparr>"]
  by (simp add: Let_def fresh_world_def reference_engine_def desc_len_def c_int64_def
        from_c_void_p_def)

text \<open>
  Claim C8. Immediately after an object has been created, with any total and before any
  update, its count \<^verbatim>\<open>n\<close> is 0.
\<close>

theorem fresh_count_zero:
  "dunder_init eng itb d tot lv dis asc asy w = (Inr self, w1) \<Longrightarrow> n self = 0"
  by (auto simp: dunder_init_def Let_def split: if_splits prod.splits sum.splits option.splits)

theorem fresh_count_zero_witness:
  "dunder_init reference_engine (Some (Collection [10::nat, 20, 30])) (Some ''Loading'') None
      True False False False fresh_world
    = (Inr \<lparr>iterable = Some (Collection [10, 20, 30]), desc = Some ''Loading'',
         leave = True, disable = False, ascii_only = False,
         async_render = False, total_iters = 3, priv_state = Some 1,
         priv_closed = False, priv_is_async = False,
         priv_desc_bytes = Some (Bytes 1 ''Loading''), priv_iterator = None, n = 0\<rparr>,
       \<lparr>lib_present = True, lib_loaded = True,
         ffi_log = [progress_bar_create 3 (Some (Bytes 1 ''Loading'')) 7 1],
         next_oid = 2, stderr = [],
         released = []\<rparr>)
   \<and> n \<lparr>iterable = Some (Collection [10::nat, 20, 30]), desc = Some ''Loading'',
         leave = True, disable = False, ascii_only = False,
         async_render = False, total_iters = 3, priv_state = Some 1,
         priv_closed = False, priv_is_async = False,
         priv_desc_bytes = Some (Bytes 1 ''Loading''), priv_iterator = None, n = 0\<rparr> = 0"
proof -
  have h: "dunder_init reference_engine (Some (Collection [10::nat, 20, 30])) (Some ''Loading'') None
      True False False False fresh_world
    = (Inr \<lparr>iterable = Some (Collection [10, 20, 30]), desc = Some ''Loading'',
         leave = True, disable = False, ascii_only = False,
         async_render = False, total_iters = 3, priv_state = Some 1,
         priv_closed = False, priv_is_async = False,
         priv_desc_bytes = Some (Bytes 1 ''Loading''), priv_iterator = None, n = 0\<rparr>,
       \<lparr>lib_present = True, lib_loaded = True,
         ffi_log = [progress_bar_create 3 (Some (Bytes 1 ''Loading'')) 7 1],
         next_oid = 2, stderr = [],
         released = []\<rparr>)"
    by (simp add: dunder_init_def fresh_world_def reference_engine_def encode_def ffi_defs
          create_flags_def FLAG_LEAVE_def desc_len_def c_int64_def c_uint64_def from_c_void_p_def)
  from fresh_count_zero [OF h] h show ?thesis by simp
qed

subsection \<open>Objects that do not hold a handle\<close>

lemmas method_defs = update_def close_def refresh_def set_description_def
  set_description_rebind_def drop_reference_def set_postfix_def write_msg_def dunder_enter_def dunder_exit_def
  dunder_iter_def dunder_next_def close_and_reraise_def advance_def encode_def

lemmas eval_defs = dunder_init_def lifetime_def method_defs ffi_defs fresh_world_def
  reference_engine_def increment_of_def desc_len_def c_int64_def c_uint64_def
  from_c_int64_def from_c_void_p_def create_flags_def create_async_flags_def
  FLAG_LEAVE_def FLAG_DISABLE_def FLAG_ASCII_def FLAG_ASYNC_def

lemma live_n_update [simp]: "live (self\<lparr>n := v\<rparr>) = live self"
  by (simp add: live_def)

lemma update_dead:
  "\<not> live self \<Longrightarrow> update eng k self w = (Inr (), self\<lparr>n := n self + k\<rparr>, w)"
  by (auto simp: live_def update_def)

lemma close_dead: "\<not> live self \<Longrightarrow> close eng self w = (Inr (), self, w)"
  by (auto simp: live_def close_def)

lemma updates_dead:
  "\<not> live self \<Longrightarrow> updates eng ks self w = (Inr (), self\<lparr>n := n self + sum_list ks\<rparr>, w)"
proof (induction ks arbitrary: self)
  case Nil
  then show ?case by simp
next
  case (Cons k ks)
  then show ?case by (simp add: update_dead add.assoc)
qed

lemma init_disabled:
  "\<exists>s0. dunder_init eng itb d tot lv True asc asy w = (Inr s0, w) \<and> \<not> live s0 \<and> n s0 = 0
        \<and> disable s0"
  by (simp add: dunder_init_def live_def)

text \<open>
  Claim C1. For every object created with \<^verbatim>\<open>disable=True\<close> and every finite sequence of
  increments applied through \<^verbatim>\<open>update\<close>, the final count \<^verbatim>\<open>n\<close> is the sum of the
  increments; the world is left as it was, so no function of the library is called and
  no byte is written; \<^verbatim>\<open>close\<close> then succeeds and changes nothing.
\<close>

theorem disabled_counts_without_engine:
  "case dunder_init eng itb d tot lv True asc asy w of
     (Inl e, w0) \<Rightarrow> False
   | (Inr s0, w0) \<Rightarrow>
       w0 = w
       \<and> updates eng ks s0 w0 = (Inr (), s0\<lparr>n := sum_list ks\<rparr>, w)
       \<and> close eng (s0\<lparr>n := sum_list ks\<rparr>) w = (Inr (), s0\<lparr>n := sum_list ks\<rparr>, w)"
proof -
  obtain s0 where i: "dunder_init eng itb d tot lv True asc asy w = (Inr s0, w)"
    and d: "\<not> live s0" and z: "n s0 = 0"
    using init_disabled by blast
  have u: "updates eng ks s0 w = (Inr (), s0\<lparr>n := sum_list ks\<rparr>, w)"
    using updates_dead [OF d, of eng ks w] z by simp
  have c: "close eng (s0\<lparr>n := sum_list ks\<rparr>) w = (Inr (), s0\<lparr>n := sum_list ks\<rparr>, w)"
    using d by (simp add: close_dead)
  show ?thesis using i u c by simp
qed

subsection \<open>The handle through the life of an object\<close>

lemma init_guarded:
  "dunder_init eng itb d tot lv dis asc asy w = (Inr s, w1) \<Longrightarrow> handle_guarded s w1"
  by (auto simp: dunder_init_def handle_guarded_def ffi_defs encode_def Let_def
           split: if_splits prod.splits sum.splits option.splits)

lemma step_guarded:
  "handle_guarded s w \<Longrightarrow> step eng c (s, w) = (s', w') \<Longrightarrow> handle_guarded s' w'"
  by (cases c)
     (auto simp: handle_guarded_def method_defs ffi_defs Let_def
           split: if_splits prod.splits sum.splits option.splits list.splits)

lemma run_guarded:
  "handle_guarded s w \<Longrightarrow> run eng cs (s, w) = (s', w') \<Longrightarrow> handle_guarded s' w'"
proof (induction cs arbitrary: s w)
  case Nil
  then show ?case by simp
next
  case (Cons c cs)
  obtain s1 w1 where st: "step eng c (s, w) = (s1, w1)" by (cases "step eng c (s, w)")
  with Cons show ?case using step_guarded [OF Cons.prems(1) st] by simp
qed

lemma step_dead:
  "priv_state s = None \<Longrightarrow> step eng c (s, w) = (s', w') \<Longrightarrow> priv_state s' = None"
  by (cases c)
     (auto simp: method_defs Let_def
           split: if_splits prod.splits sum.splits option.splits list.splits)

lemma run_dead:
  "priv_state s = None \<Longrightarrow> run eng cs (s, w) = (s', w') \<Longrightarrow> priv_state s' = None"
proof (induction cs arbitrary: s w)
  case Nil
  then show ?case by simp
next
  case (Cons c cs)
  obtain s1 w1 where st: "step eng c (s, w) = (s1, w1)" by (cases "step eng c (s, w)")
  with Cons show ?case using step_dead [OF Cons.prems(1) st] by simp
qed

lemma close_guarded:
  "handle_guarded s w \<Longrightarrow> step eng Close (s, w) = (s', w') \<Longrightarrow> priv_state s' = None"
  by (auto simp: handle_guarded_def close_def ffi_defs Let_def
           split: if_splits prod.splits sum.splits)

lemma run_append: "run eng (xs @ ys) sw = run eng ys (run eng xs sw)"
  by (induction xs arbitrary: sw) simp_all

lemma closed_stays_closed:
  assumes "lifetime eng itb d tot lv dis asc asy cs w0 = (Inr self, w)" and "Close \<in> set cs"
  shows "priv_state self = None"
proof -
  from assms(1) obtain s0 w1 where i: "dunder_init eng itb d tot lv dis asc asy w0 = (Inr s0, w1)"
    and r: "run eng cs (s0, w1) = (self, w)"
    by (auto simp: lifetime_def split: prod.splits sum.splits)
  from assms(2) obtain xs ys where cs: "cs = xs @ Close # ys" by (auto dest: split_list)
  obtain s1 w2 where r1: "run eng xs (s0, w1) = (s1, w2)" by (cases "run eng xs (s0, w1)")
  obtain s2 w3 where r2: "step eng Close (s1, w2) = (s2, w3)" by (cases "step eng Close (s1, w2)")
  have g1: "handle_guarded s1 w2" using run_guarded [OF init_guarded [OF i] r1] .
  have d2: "priv_state s2 = None" using close_guarded [OF g1 r2] .
  have "run eng ys (s2, w3) = (self, w)" using r cs r1 r2 by (simp add: run_append)
  from run_dead [OF d2 this] show ?thesis .
qed

lemma lifetime_example:
  "lifetime reference_engine (None :: nat iterable option) None (Some 10) True False False False
      [Update 3, Close] fresh_world
    = (Inr \<lparr>iterable = None, desc = None, leave = True, disable = False,
         ascii_only = False, async_render = False, total_iters = 10,
         priv_state = None, priv_closed = True, priv_is_async = False,
         priv_desc_bytes = None, priv_iterator = None, n = 3\<rparr>,
       \<lparr>lib_present = True, lib_loaded = True,
         ffi_log = [progress_bar_create 10 None 0 1, progress_bar_update 1 3,
                    progress_bar_close 1],
         next_oid = 1, stderr = [],
         released = []\<rparr>)"
  by (simp add: eval_defs)

text \<open>
  Claim C2. \<^verbatim>\<open>close\<close> is idempotent: on every object that has been constructed and on
  which \<^verbatim>\<open>close\<close> has been called (among any other method calls), a further call of
  \<^verbatim>\<open>close\<close> raises nothing, calls no function of the library (the world is unchanged) and
  leaves every attribute, \<^verbatim>\<open>_state\<close> and \<^verbatim>\<open>_closed\<close> included, as it was.
\<close>

theorem close_idempotent:
  assumes "lifetime eng itb d tot lv dis asc asy cs w0 = (Inr self, w)" and "Close \<in> set cs"
  shows "close eng self w = (Inr (), self, w)"
  using closed_stays_closed [OF assms] by (simp add: close_dead live_def)

theorem close_idempotent_witness:
  "Close \<in> set [Update 3, Close]
   \<and> close reference_engine
       \<lparr>iterable = (None :: nat iterable option), desc = None, leave = True, disable = False,
         ascii_only = False, async_render = False, total_iters = 10,
         priv_state = None, priv_closed = True, priv_is_async = False,
         priv_desc_bytes = None, priv_iterator = None, n = 3\<rparr>
       \<lparr>lib_present = True, lib_loaded = True,
         ffi_log = [progress_bar_create 10 None 0 1, progress_bar_update 1 3,
                    progress_bar_close 1],
         next_oid = 1, stderr = [],
         released = []\<rparr>
     = (Inr (),
       \<lparr>iterable = None, desc = None, leave = True, disable = False,
         ascii_only = False, async_render = False, total_iters = 10,
         priv_state = None, priv_closed = True, priv_is_async = False,
         priv_desc_bytes = None, priv_iterator = None, n = 3\<rparr>,
       \<lparr>lib_present = True, lib_loaded = True,
         ffi_log = [progress_bar_create 10 None 0 1, progress_bar_update 1 3,
                    progress_bar_close 1],
         next_oid = 1, stderr = [],
         released = []\<rparr>)"
proof -
  have m: "Close \<in> set [Update 3, Close]" by simp
  from close_idempotent [OF lifetime_example m] m show ?thesis by simp
qed

text \<open>
  Claim C9. On every object on which \<^verbatim>\<open>close\<close> has been called, a later \<^verbatim>\<open>update(k)\<close>
  raises nothing, calls no function of the library (the world is unchanged) and adds
  exactly \<open>k\<close> to the count \<^verbatim>\<open>n\<close> kept by the object.
\<close>

theorem update_after_close_counts:
  assumes "lifetime eng itb d tot lv dis asc asy cs w0 = (Inr self, w)" and "Close \<in> set cs"
  shows "update eng k self w = (Inr (), self\<lparr>n := n self + k\<rparr>, w)"
  using closed_stays_closed [OF assms] by (simp add: update_dead live_def)

theorem update_after_close_counts_witness:
  "Close \<in> set [Update 3, Close]
   \<and> update reference_engine 4
       \<lparr>iterable = (None :: nat iterable option), desc = None, leave = True, disable = False,
         ascii_only = False, async_render = False, total_iters = 10,
         priv_state = None, priv_closed = True, priv_is_async = False,
         priv_desc_bytes = None, priv_iterator = None, n = 3\<rparr>
       \<lparr>lib_present = True, lib_loaded = True,
         ffi_log = [progress_bar_create 10 None 0 1, progress_bar_update 1 3,
                    progress_bar_close 1],
         next_oid = 1, stderr = [],
         released = []\<rparr>
     = (Inr (),
       \<lparr>iterable = None, desc = None, leave = True, disable = False,
         ascii_only = False, async_render = False, total_iters = 10,
         priv_state = None, priv_closed = True, priv_is_async = False,
         priv_desc_bytes = None, priv_iterator = None, n = 7\<rparr>,
       \<lparr>lib_present = True, lib_loaded = True,
         ffi_log = [progress_bar_create 10 None 0 1, progress_bar_update 1 3,
                    progress_bar_close 1],
         next_oid = 1, stderr = [],
         released = []\<rparr>)"
proof -
  have m: "Close \<in> set [Update 3, Close]" by simp
  from update_after_close_counts [OF lifetime_example m, of 4] m show ?thesis by simp
qed


subsection \<open>Calls into the library\<close>

lemma step_silent:
  "\<not> live s \<Longrightarrow> step eng c (s, w) = (s', w') \<Longrightarrow>
     ffi_log w' = ffi_log w \<and> lib_loaded w' = lib_loaded w \<and> \<not> live s'"
  by (cases c)
     (auto simp: live_def method_defs Let_def
           split: if_splits prod.splits sum.splits option.splits list.splits)

lemma run_silent:
  "\<not> live s \<Longrightarrow> run eng cs (s, w) = (s', w') \<Longrightarrow>
     ffi_log w' = ffi_log w \<and> lib_loaded w' = lib_loaded w"
proof (induction cs arbitrary: s w)
  case Nil
  then show ?case by simp
next
  case (Cons c cs)
  obtain s1 w1 where st: "step eng c (s, w) = (s1, w1)" by (cases "step eng c (s, w)")
  from step_silent [OF Cons.prems(1) st] Cons.IH [of s1 w1] Cons.prems(2) st
  show ?case by simp
qed

lemma appended:
  "take (length (ffi_log w)) (ffi_log w') = ffi_log w \<Longrightarrow>
   list_all P (drop (length (ffi_log w)) (ffi_log w')) \<Longrightarrow>
   \<exists>ys. ffi_log w' = ffi_log w @ ys \<and> list_all P ys"
  by (metis append_take_drop_id)

lemma step_calls_raw:
  "step eng c (s, w) = (s', w') \<Longrightarrow>
     take (length (ffi_log w)) (ffi_log w') = ffi_log w
     \<and> list_all (\<lambda>x. \<not> carries_disable x) (drop (length (ffi_log w)) (ffi_log w'))"
  by (cases c)
     (auto simp: method_defs ffi_defs carries_disable_def Let_def
           split: if_splits prod.splits sum.splits option.splits list.splits)

lemma step_calls:
  "step eng c (s, w) = (s', w') \<Longrightarrow>
     \<exists>ys. ffi_log w' = ffi_log w @ ys \<and> list_all (\<lambda>x. \<not> carries_disable x) ys"
  using step_calls_raw [of eng c s w s' w'] appended [of w w'] by blast

lemma run_calls:
  "run eng cs (s, w) = (s', w') \<Longrightarrow>
     \<exists>ys. ffi_log w' = ffi_log w @ ys \<and> list_all (\<lambda>x. \<not> carries_disable x) ys"
proof (induction cs arbitrary: s w)
  case Nil
  then show ?case by simp
next
  case (Cons c cs)
  obtain s1 w1 where st: "step eng c (s, w) = (s1, w1)" by (cases "step eng c (s, w)")
  from step_calls [OF st] obtain ys
    where a: "ffi_log w1 = ffi_log w @ ys" "list_all (\<lambda>x. \<not> carries_disable x) ys" by blast
  from Cons.IH [of s1 w1] Cons.prems st obtain zs
    where b: "ffi_log w' = ffi_log w1 @ zs" "list_all (\<lambda>x. \<not> carries_disable x) zs" by auto
  from a b have "ffi_log w' = ffi_log w @ (ys @ zs)"
    and "list_all (\<lambda>x. \<not> carries_disable x) (ys @ zs)" by simp_all
  then show ?case by blast
qed

lemma no_disable_bit:
  "c_uint64 (create_flags lv False asc) AND 0x02 = 0"
  "c_uint64 (create_async_flags lv False asc) AND 0x02 = 0"
  by (cases lv; cases asc;
      simp add: create_flags_def create_async_flags_def c_uint64_def FLAG_LEAVE_def
        FLAG_ASCII_def FLAG_ASYNC_def)+

lemma init_calls_raw:
  "dunder_init eng itb d tot lv dis asc asy w = (r, w1) \<Longrightarrow>
     take (length (ffi_log w)) (ffi_log w1) = ffi_log w
     \<and> list_all (\<lambda>x. \<not> carries_disable x) (drop (length (ffi_log w)) (ffi_log w1))"
  by (auto simp: dunder_init_def ffi_create_def ffi_create_async_def get_lib_def foreign_def
        encode_def carries_disable_def no_disable_bit Let_def
           split: if_splits prod.splits sum.splits option.splits)

lemma init_calls:
  "dunder_init eng itb d tot lv dis asc asy w = (r, w1) \<Longrightarrow>
     \<exists>ys. ffi_log w1 = ffi_log w @ ys \<and> list_all (\<lambda>x. \<not> carries_disable x) ys"
  using init_calls_raw [of eng itb d tot lv dis asc asy w r w1] appended [of w w1] by blast

lemma lifetime_calls:
  assumes "lifetime eng itb d tot lv dis asc asy cs w0 = (Inr self, w)"
  shows "list_all (\<lambda>x. \<not> carries_disable x) (new_calls w0 w)"
proof -
  from assms obtain s0 w1 where i: "dunder_init eng itb d tot lv dis asc asy w0 = (Inr s0, w1)"
    and r: "run eng cs (s0, w1) = (self, w)"
    by (auto simp: lifetime_def split: prod.splits sum.splits)
  from init_calls [OF i] obtain ys
    where a: "ffi_log w1 = ffi_log w0 @ ys" "list_all (\<lambda>x. \<not> carries_disable x) ys" by blast
  from run_calls [OF r] obtain zs
    where b: "ffi_log w = ffi_log w1 @ zs" "list_all (\<lambda>x. \<not> carries_disable x) zs" by blast
  from a b show ?thesis by (simp add: new_calls_def)
qed

lemma lifetime_guarded:
  assumes "lifetime eng itb d tot lv dis asc asy cs w0 = (Inr self, w)"
  shows "handle_guarded self w"
proof -
  from assms obtain s0 w1 where i: "dunder_init eng itb d tot lv dis asc asy w0 = (Inr s0, w1)"
    and r: "run eng cs (s0, w1) = (self, w)"
    by (auto simp: lifetime_def split: prod.splits sum.splits)
  from run_guarded [OF init_guarded [OF i] r] show ?thesis .
qed

lemma lifetime_disabled:
  assumes "lifetime eng itb d tot lv True asc asy cs w0 = (Inr self, w)"
  shows "ffi_log w = ffi_log w0 \<and> lib_loaded w = lib_loaded w0"
proof -
  obtain s0 where i: "dunder_init eng itb d tot lv True asc asy w0 = (Inr s0, w0)"
    and d: "\<not> live s0"
    using init_disabled by blast
  from assms i have r: "run eng cs (s0, w0) = (self, w)"
    by (auto simp: lifetime_def split: prod.splits)
  from run_silent [OF d r] show ?thesis .
qed

lemma lifetime_example_live:
  "lifetime reference_engine (None :: nat iterable option) None (Some 10) True False False False
      [Update 3] fresh_world
    = (Inr \<lparr>iterable = None, desc = None, leave = True, disable = False,
         ascii_only = False, async_render = False, total_iters = 10,
         priv_state = Some 1, priv_closed = False, priv_is_async = False,
         priv_desc_bytes = None, priv_iterator = None, n = 3\<rparr>,
       \<lparr>lib_present = True, lib_loaded = True,
         ffi_log = [progress_bar_create 10 None 0 1, progress_bar_update 1 3],
         next_oid = 1, stderr = [],
         released = []\<rparr>)"
  by (simp add: eval_defs)

lemma lifetime_example_disabled:
  "lifetime reference_engine (None :: nat iterable option) None (Some 10) True True False False
      [Update 3, Close] fresh_world
    = (Inr \<lparr>iterable = None, desc = None, leave = True, disable = True,
         ascii_only = False, async_render = False, total_iters = 10,
         priv_state = None, priv_closed = False, priv_is_async = False,
         priv_desc_bytes = None, priv_iterator = None, n = 3\<rparr>,
       \<lparr>lib_present = True, lib_loaded = False, ffi_log = [], next_oid = 1, stderr = [],
         released = []\<rparr>)"
  by (simp add: eval_defs)

text \<open>
  Claim C10. Through the whole life of an object (its construction followed by any
  method calls): \<^verbatim>\<open>_state\<close> is not \<^verbatim>\<open>None\<close> only while the object is neither disabled nor
  closed; a method called while the guard \<^verbatim>\<open>_state is not None and not _closed\<close> is false
  makes no call into the library; an object created with \<^verbatim>\<open>disable=True\<close> never calls
  the library (nor loads it); and no call transmits a flags word with the bit
  \<^verbatim>\<open>DISABLE = 0x02\<close> set.
\<close>

theorem engine_only_behind_guard:
  assumes "lifetime eng itb d tot lv dis asc asy cs w0 = (Inr self, w)"
  shows "(priv_state self \<noteq> None \<longrightarrow> \<not> disable self \<and> \<not> priv_closed self)
       \<and> (\<forall>c. \<not> live self \<longrightarrow> ffi_log (snd (step eng c (self, w))) = ffi_log w)
       \<and> (dis \<longrightarrow> ffi_log w = ffi_log w0 \<and> lib_loaded w = lib_loaded w0)
       \<and> list_all (\<lambda>x. \<not> carries_disable x) (new_calls w0 w)"
proof -
  have 1: "priv_state self \<noteq> None \<longrightarrow> \<not> disable self \<and> \<not> priv_closed self"
    using lifetime_guarded [OF assms] by (auto simp: handle_guarded_def)
  have 2: "\<forall>c. \<not> live self \<longrightarrow> ffi_log (snd (step eng c (self, w))) = ffi_log w"
  proof (intro allI impI)
    fix c assume d: "\<not> live self"
    obtain s' w' where st: "step eng c (self, w) = (s', w')" by (cases "step eng c (self, w)")
    from step_silent [OF d st] st show "ffi_log (snd (step eng c (self, w))) = ffi_log w"
      by simp
  qed
  have 3: "dis \<longrightarrow> ffi_log w = ffi_log w0 \<and> lib_loaded w = lib_loaded w0"
  proof
    assume dis
    with assms have "lifetime eng itb d tot lv True asc asy cs w0 = (Inr self, w)" by simp
    from lifetime_disabled [OF this]
    show "ffi_log w = ffi_log w0 \<and> lib_loaded w = lib_loaded w0" .
  qed
  from 1 2 3 lifetime_calls [OF assms] show ?thesis by blast
qed

theorem engine_only_behind_guard_witness:
  "(priv_state
      \<lparr>iterable = (None :: nat iterable option), desc = None, leave = True, disable = False,
         ascii_only = False, async_render = False, total_iters = 10,
         priv_state = Some 1, priv_closed = False, priv_is_async = False,
         priv_desc_bytes = None, priv_iterator = None, n = 3\<rparr> \<noteq> None)
   \<and> list_all (\<lambda>x. \<not> carries_disable x)
       [progress_bar_create 10 None 0 1, progress_bar_update 1 3]
   \<and> \<not> live
       \<lparr>iterable = (None :: nat iterable option), desc = None, leave = True, disable = True,
         ascii_only = False, async_render = False, total_iters = 10,
         priv_state = None, priv_closed = False, priv_is_async = False,
         priv_desc_bytes = None, priv_iterator = None, n = 3\<rparr>
   \<and> ffi_log (snd (step reference_engine (Update 4)
       (\<lparr>iterable = (None :: nat iterable option), desc = None, leave = True, disable = True,
         ascii_only = False, async_render = False, total_iters = 10,
         priv_state = None, priv_closed = False, priv_is_async = False,
         priv_desc_bytes = None, priv_iterator = None, n = 3\<rparr>,
        \<lparr>lib_present = True, lib_loaded = False, ffi_log = [], next_oid = 1,
          stderr = [],
         released = []\<rparr>))) = []"
proof -
  note a = engine_only_behind_guard [OF lifetime_example_live]
  note b = engine_only_behind_guard [OF lifetime_example_disabled]
  have d: "\<not> live
       \<lparr>iterable = (None :: nat iterable option), desc = None, leave = True, disable = True,
         ascii_only = False, async_render = False, total_iters = 10,
         priv_state = None, priv_closed = False, priv_is_async = False,
         priv_desc_bytes = None, priv_iterator = None, n = 3\<rparr>"
    by (simp add: live_def)
  note c = b [THEN conjunct2, THEN conjunct1, rule_format, OF d, of "Update 4"]
  from a c d show ?thesis by (simp add: new_calls_def fresh_world_def)
qed


subsection \<open>The total\<close>

lemma init_example:
  "dunder_init reference_engine (Some (Collection [10::nat, 20, 30])) None None
      True False False False fresh_world
    = (Inr \<lparr>iterable = Some (Collection [10, 20, 30]), desc = None, leave = True,
         disable = False, ascii_only = False, async_render = False,
         total_iters = 3, priv_state = Some 1, priv_closed = False,
         priv_is_async = False, priv_desc_bytes = None,
         priv_iterator = None, n = 0\<rparr>,
       \<lparr>lib_present = True, lib_loaded = True,
         ffi_log = [progress_bar_create 3 None 0 1], next_oid = 1, stderr = [],
         released = []\<rparr>)"
  by (simp add: eval_defs)

text \<open>
  Claim C6 as stated says that the total of every object is a non-negative integer and
  that the value for an unknown length is reserved for it. \<^verbatim>\<open>asmqdm(total=-1, disable=True)\<close>
  has the total \<open>-1\<close>; and the value for an unknown length is \<open>0\<close>, which is also the
  total of the empty list, whose length is known.
\<close>

theorem total_nonneg_counterexample:
  "dunder_init reference_engine (None :: nat iterable option) None (Some (- 1))
      True True False False fresh_world
    = (Inr \<lparr>iterable = None, desc = None, leave = True, disable = True,
         ascii_only = False, async_render = False, total_iters = - 1,
         priv_state = None, priv_closed = False, priv_is_async = False,
         priv_desc_bytes = None, priv_iterator = None, n = 0\<rparr>, fresh_world)
   \<and> \<not> 0 \<le> total_iters
       \<lparr>iterable = (None :: nat iterable option), desc = None, leave = True, disable = True,
         ascii_only = False, async_render = False, total_iters = - 1,
         priv_state = None, priv_closed = False, priv_is_async = False,
         priv_desc_bytes = None, priv_iterator = None, n = 0\<rparr>
   \<and> map_sum id total_iters
       (fst (dunder_init reference_engine (Some (Collection ([] :: nat list))) None None
          True True False False fresh_world)) = Inr 0
   \<and> map_sum id total_iters
       (fst (dunder_init reference_engine (Some (Generator [7 :: nat])) None None
          True True False False fresh_world)) = Inr 0"
  by (simp add: dunder_init_def)

text \<open>
  Claim C6, amended. For every object constructed: if \<^verbatim>\<open>total\<close> is given, the total of
  the object equals it, whatever its sign; otherwise, if the wrapped iterable has a
  length, the total equals that length; otherwise the total is \<open>0\<close>, the value that
  stands for an unknown length (and that a known length of \<open>0\<close> gives too). The total
  is non-negative whenever the given \<^verbatim>\<open>total\<close>, if any, is. \<^verbatim>\<open>__len__\<close> returns the total.
\<close>

theorem total_resolution:
  assumes "dunder_init eng itb d tot lv dis asc asy w = (Inr self, w1)"
  shows "total_iters self =
           (case tot of
              Some t \<Rightarrow> t
            | None \<Rightarrow> (case itb of Some (Collection xs) \<Rightarrow> int (length xs) | _ \<Rightarrow> 0))
       \<and> dunder_len self = total_iters self
       \<and> ((case tot of Some t \<Rightarrow> 0 \<le> t | None \<Rightarrow> True) \<longrightarrow> 0 \<le> total_iters self)"
proof -
  have t: "total_iters self =
           (case tot of
              Some t \<Rightarrow> t
            | None \<Rightarrow> (case itb of Some (Collection xs) \<Rightarrow> int (length xs) | _ \<Rightarrow> 0))"
    using assms
    by (auto simp: dunder_init_def Let_def split: if_splits prod.splits sum.splits)
  have p: "(case tot of Some t \<Rightarrow> 0 \<le> t | None \<Rightarrow> True) \<longrightarrow> 0 \<le> total_iters self"
    unfolding t by (auto split: option.splits iterable.splits)
  from t p show ?thesis by (simp add: dunder_len_def)
qed

theorem total_resolution_witness:
  "(case (None :: int option) of Some t \<Rightarrow> 0 \<le> t | None \<Rightarrow> True)
   \<and> total_iters
       \<lparr>iterable = Some (Collection [10::nat, 20, 30]), desc = None, leave = True,
         disable = False, ascii_only = False, async_render = False,
         total_iters = 3, priv_state = Some 1, priv_closed = False,
         priv_is_async = False, priv_desc_bytes = None,
         priv_iterator = None, n = 0\<rparr> = int (length [10::nat, 20, 30])
   \<and> dunder_len
       \<lparr>iterable = Some (Collection [10::nat, 20, 30]), desc = None, leave = True,
         disable = False, ascii_only = False, async_render = False,
         total_iters = 3, priv_state = Some 1, priv_closed = False,
         priv_is_async = False, priv_desc_bytes = None,
         priv_iterator = None, n = 0\<rparr> = 3"
  using total_resolution [OF init_example] by simp

subsection \<open>Replacing the description\<close>

text \<open>
  Claim C4 says that when \<^verbatim>\<open>set_description\<close> replaces the description, the old buffer
  stays referenced until the new one has been installed in the library, and is released
  only afterwards. Here the object is created with the description \<^verbatim>\<open>"Loading"\<close> in async
  mode, and \<^verbatim>\<open>set_description("Done")\<close> is called. The method makes the second call into
  the library, the one that installs the new buffer; but the old buffer, whose address
  the library was given by the first call, has lost its last reference when only one
  call had been made, that is before the installing call and not after it. So at that
  moment the library holds a buffer that has been released.
\<close>

theorem set_description_drops_old_buffer_first:
  "dunder_init reference_engine (None :: nat iterable option) (Some ''Loading'') (Some 10)
      True False False True fresh_world
    = (Inr \<lparr>iterable = (None :: nat iterable option), desc = Some ''Loading'', leave = True,
         disable = False, ascii_only = False, async_render = True,
         total_iters = 10, priv_state = Some 1, priv_closed = False,
         priv_is_async = True, priv_desc_bytes = Some (Bytes 1 ''Loading''),
         priv_iterator = None, n = 0\<rparr>,
       \<lparr>lib_present = True, lib_loaded = True,
         ffi_log = [progress_bar_create_async 10 (Some (Bytes 1 ''Loading'')) 7 33],
         next_oid = 2, stderr = [], released = []\<rparr>)
   \<and> set_description reference_engine (Some ''Done'')
       \<lparr>iterable = (None :: nat iterable option), desc = Some ''Loading'', leave = True,
         disable = False, ascii_only = False, async_render = True,
         total_iters = 10, priv_state = Some 1, priv_closed = False,
         priv_is_async = True, priv_desc_bytes = Some (Bytes 1 ''Loading''),
         priv_iterator = None, n = 0\<rparr>
       \<lparr>lib_present = True, lib_loaded = True,
         ffi_log = [progress_bar_create_async 10 (Some (Bytes 1 ''Loading'')) 7 33],
         next_oid = 2, stderr = [], released = []\<rparr>
    = (Inr (),
       \<lparr>iterable = None, desc = Some ''Done'', leave = True, disable = False,
         ascii_only = False, async_render = True, total_iters = 10,
         priv_state = Some 1, priv_closed = False, priv_is_async = True,
         priv_desc_bytes = Some (Bytes 2 ''Done''), priv_iterator = None, n = 0\<rparr>,
       \<lparr>lib_present = True, lib_loaded = True,
         ffi_log = [progress_bar_create_async 10 (Some (Bytes 1 ''Loading'')) 7 33,
                    progress_bar_set_description 1 (Bytes 2 ''Done'') 4],
         next_oid = 3, stderr = [], released = [(1, Bytes 1 ''Loading'')]\<rparr>)
   \<and> released (snd (snd (set_description reference_engine (Some ''Done'')
       \<lparr>iterable = (None :: nat iterable option), desc = Some ''Loading'', leave = True,
         disable = False, ascii_only = False, async_render = True,
         total_iters = 10, priv_state = Some 1, priv_closed = False,
         priv_is_async = True, priv_desc_bytes = Some (Bytes 1 ''Loading''),
         priv_iterator = None, n = 0\<rparr>
       \<lparr>lib_present = True, lib_loaded = True,
         ffi_log = [progress_bar_create_async 10 (Some (Bytes 1 ''Loading'')) 7 33],
         next_oid = 2, stderr = [], released = []\<rparr>)))
     = [(length (ffi_log
       \<lparr>lib_present = True, lib_loaded = True,
         ffi_log = [progress_bar_create_async 10 (Some (Bytes 1 ''Loading'')) 7 33],
         next_oid = 2, stderr = [], released = []\<rparr>), Bytes 1 ''Loading'')]
   \<and> last_desc_passed (ffi_log
       \<lparr>lib_present = True, lib_loaded = True,
         ffi_log = [progress_bar_create_async 10 (Some (Bytes 1 ''Loading'')) 7 33],
         next_oid = 2, stderr = [], released = []\<rparr>) = Some (Bytes 1 ''Loading'')
   \<and> held_when_released
       \<lparr>lib_present = True, lib_loaded = True,
         ffi_log = [progress_bar_create_async 10 (Some (Bytes 1 ''Loading'')) 7 33,
                    progress_bar_set_description 1 (Bytes 2 ''Done'') 4],
         next_oid = 3, stderr = [], released = [(1, Bytes 1 ''Loading'')]\<rparr>"
  by (simp add: eval_defs last_desc_passed_def desc_passed_def held_when_released_def
        empty_bytes_def)

subsection \<open>Iteration\<close>















lemma update_call_n [simp]: "update_call (s\<lparr>n := v\<rparr>) = update_call s"
  by (simp add: update_call_def)

lemma close_call_n [simp]: "close_call (s\<lparr>n := v\<rparr>) = close_call s"
  by (simp add: close_call_def)







end
